theory Spec2Isabelle
  imports Main
begin

section \<open>The launcher's world\<close>

text \<open>
  A shallow embedding of \<^verbatim>\<open>launch_viewer_webview.py\<close>. Everything the launcher
  does to the operating system is made explicit: the mutable state it works on is a
  record \<open>world\<close>, the answers the operating system gives (which it cannot compute)
  are the fields of a record \<open>env\<close>, and every Python exception is a value of
  \<open>exn\<close>. Functions that can raise return \<open>(exn + 'a) \<times> world\<close>: the world is
  kept on the exceptional path too, because effects that happened before the raise
  stay done.
\<close>

type_synonym path = string

datatype exn =
    OSError
  | ValueError
  | OverflowError
  | RuntimeError string
  | KeyboardInterrupt string

text \<open>\<^verbatim>\<open>except Exception\<close> catches everything but \<^verbatim>\<open>KeyboardInterrupt\<close>.\<close>

fun is_Exception :: "exn \<Rightarrow> bool" where
  "is_Exception (KeyboardInterrupt m) = False"
| "is_Exception e = True"

fun show_exn :: "exn \<Rightarrow> string" where
  "show_exn OSError = ''OSError''"
| "show_exn ValueError = ''ValueError''"
| "show_exn OverflowError = ''OverflowError''"
| "show_exn (RuntimeError m) = m"
| "show_exn (KeyboardInterrupt m) = m"

datatype write_result = WriteOk | OpenFails | WriteFails

datatype poll_result = Running | Exited | PollRaises

datatype loop_state = NotServing | Serving | Finished

text \<open>The calls into the operating system, in the order the launcher makes them.\<close>

datatype event =
    OpenRead path
  | OpenWrite path
  | OsRemove path
  | PidProbe int
  | SocketBind int
  | ServerInit int
  | ThreadStart
  | Connect int
  | Sleep nat
  | WebbrowserOpen string
  | Mkdtemp
  | Popen "string list" nat
  | Rmtree path
  | ProcPoll
  | ProcTerminate
  | ProcWait
  | ProcKill
  | Urlopen string
  | ServerShutdown
  | ServerClose

text \<open>
  \<^verbatim>\<open>StoppableHTTPServer\<close>: the listening socket and the state of the accept loop
  (\<^verbatim>\<open>serve_forever\<close>) that runs on the background thread.
\<close>

record server =
  srv_port :: int
  srv_dir :: path
  serve_loop :: loop_state
  socket_open :: bool

text \<open>
  \<open>files\<close> holds the text files (the lock marker), \<open>dirs\<close> the directories (the
  browser profiles). \<open>shutdown_requested\<close> is the module's global flag and \<open>checks\<close>
  counts how often it has been read. \<open>clock\<close> is \<^verbatim>\<open>time.time()\<close> in milliseconds.
  \<open>stdout\<close> collects the lines written by \<^verbatim>\<open>log\<close> and \<^verbatim>\<open>print\<close>, \<open>trace\<close>
  the system calls.
\<close>

record world =
  files :: "path \<Rightarrow> string option"
  dirs :: "path set"
  shutdown_requested :: bool
  handlers :: "int list"
  checks :: nat
  clock :: nat
  httpd :: "server option"
  stdout :: "string list"
  trace :: "event list"

text \<open>
  The environment. Oracles indexed by a \<open>nat\<close> are asked at a clock value
  (\<open>connect_ok\<close>, \<open>proc_poll\<close>, \<open>health_ok\<close>), at an attempt number (\<open>rmtree_ok\<close>) or
  at the number of the flag read (\<open>signals_before\<close>: the signals that arrived since
  the previous read of the flag, all of them with \<^verbatim>\<open>signal_handler\<close> installed).
\<close>

record env =
  os_nt :: bool
  getpid :: nat
  can_read :: "path \<Rightarrow> bool"
  can_remove :: "path \<Rightarrow> bool"
  write_outcome :: "path \<Rightarrow> write_result"
  kill0_ok :: "int \<Rightarrow> bool"
  open_process_ok :: "int \<Rightarrow> bool"
  has_sighup :: bool
  signal_ok :: "int \<Rightarrow> bool"
  signals_before :: "nat \<Rightarrow> int list"
  bind_free :: "int \<Rightarrow> bool"
  listen_ok :: "int \<Rightarrow> bool"
  thread_start_ok :: bool
  connect_ok :: "nat \<Rightarrow> bool"
  close_ok :: bool
  path_exists :: "path \<Rightarrow> bool"
  webbrowser_ok :: bool
  mkdtemp_result :: "path option"
  popen_result :: "nat option"
  rmtree_ok :: "path \<Rightarrow> nat \<Rightarrow> bool"
  proc_poll :: "nat \<Rightarrow> poll_result"
  terminate_ok :: bool
  wait_ok :: bool
  kill_ok :: bool
  health_ok :: "nat \<Rightarrow> bool"

section \<open>Utilities\<close>

text \<open>\<^verbatim>\<open>str\<close> of an integer: decimal text.\<close>

fun str_nat :: "nat \<Rightarrow> string" where
  "str_nat n =
     (if n < 10 then [''0123456789'' ! n]
      else str_nat (n div 10) @ [''0123456789'' ! (n mod 10)])"

definition str_int :: "int \<Rightarrow> string" where
  "str_int i = (if i < 0 then CHR ''-'' # str_nat (nat (- i)) else str_nat (nat i))"

text \<open>\<^verbatim>\<open>log\<close> prints one line and flushes.\<close>

definition log :: "string \<Rightarrow> world \<Rightarrow> world" where
  "log msg w = w\<lparr>stdout := stdout w @ [msg]\<rparr>"

definition sys_call :: "event \<Rightarrow> world \<Rightarrow> world" where
  "sys_call e w = w\<lparr>trace := trace w @ [e]\<rparr>"

text \<open>\<^verbatim>\<open>time.sleep\<close>: the only way time passes in the model.\<close>

definition sleep :: "nat \<Rightarrow> world \<Rightarrow> world" where
  "sleep ms w = (sys_call (Sleep ms) w)\<lparr>clock := clock w + ms\<rparr>"

subsection \<open>Parsing the marker: \<^verbatim>\<open>f.read().strip()\<close> and \<^verbatim>\<open>int(raw)\<close>\<close>

text \<open>
  Marker contents are ASCII text. The whitespace of \<^verbatim>\<open>str.strip\<close> within ASCII is
  tab, line feed, vertical tab, form feed, carriage return, the four separators
  0x1C to 0x1F and the space.
\<close>

definition is_space :: "char \<Rightarrow> bool" where
  "is_space c =
     (c \<in> set [CHR 0x09, CHR 0x0A, CHR 0x0B, CHR 0x0C, CHR 0x0D,
               CHR 0x1C, CHR 0x1D, CHR 0x1E, CHR 0x1F, CHR 0x20])"

definition strip :: "string \<Rightarrow> string" where
  "strip s = rev (dropWhile is_space (rev (dropWhile is_space s)))"

definition digit_val :: "char \<Rightarrow> nat option" where
  "digit_val =
     map_of [(CHR ''0'', 0), (CHR ''1'', 1), (CHR ''2'', 2), (CHR ''3'', 3), (CHR ''4'', 4),
             (CHR ''5'', 5), (CHR ''6'', 6), (CHR ''7'', 7), (CHR ''8'', 8), (CHR ''9'', 9)]"

text \<open>
  The digits of a decimal literal, most significant first. Python allows one
  underscore between two digits and nowhere else.
\<close>

fun literal_digits :: "string \<Rightarrow> nat list option" where
  "literal_digits [] = None"
| "literal_digits [c] = map_option (\<lambda>d. [d]) (digit_val c)"
| "literal_digits (c # u # cs) =
     (case digit_val c of
        None \<Rightarrow> None
      | Some d \<Rightarrow>
          if u = CHR ''_'' then
            (case cs of [] \<Rightarrow> None | x # xs \<Rightarrow> map_option ((#) d) (literal_digits cs))
          else map_option ((#) d) (literal_digits (u # cs)))"

definition digits_value :: "nat list \<Rightarrow> nat" where
  "digits_value ds = foldl (\<lambda>acc d. 10 * acc + d) 0 ds"

text \<open>
  \<^verbatim>\<open>int(s)\<close> in base ten: surrounding whitespace, one optional sign, a literal.
  \<open>None\<close> is \<^verbatim>\<open>ValueError\<close>; a literal of more than 4300 digits raises it too
  (the interpreter's limit on integer string conversion).
\<close>

definition py_int :: "string \<Rightarrow> int option" where
  "py_int s =
     (case strip s of
        [] \<Rightarrow> None
      | c # cs \<Rightarrow>
          (let neg = (c = CHR ''-'');
               body = (if c = CHR ''-'' \<or> c = CHR ''+'' then cs else c # cs)
           in case literal_digits body of
                None \<Rightarrow> None
              | Some ds \<Rightarrow>
                  if 4300 < length ds then None
                  else Some (if neg then - int (digits_value ds) else int (digits_value ds))))"

section \<open>Lock file management\<close>

text \<open>
  \<^verbatim>\<open>_windows_process_exists\<close> opens the process with a query-only right and closes
  the handle; \<^verbatim>\<open>_posix_pid_alive\<close> sends signal 0. Both turn every exception into
  \<open>False\<close>. What the operating system answers is the environment's.
\<close>

definition windows_process_exists :: "env \<Rightarrow> int \<Rightarrow> world \<Rightarrow> bool \<times> world" where
  "windows_process_exists env pid w = (open_process_ok env pid, sys_call (PidProbe pid) w)"

definition posix_pid_alive :: "env \<Rightarrow> int \<Rightarrow> world \<Rightarrow> bool \<times> world" where
  "posix_pid_alive env pid w = (kill0_ok env pid, sys_call (PidProbe pid) w)"

text \<open>What the platform's liveness check reports for a PID.\<close>

definition reported_live :: "env \<Rightarrow> int \<Rightarrow> bool" where
  "reported_live env pid = (if os_nt env then open_process_ok env pid else kill0_ok env pid)"

text \<open>\<^verbatim>\<open>os.remove\<close>: raises when the file is missing or the system refuses.\<close>

definition os_remove :: "env \<Rightarrow> path \<Rightarrow> world \<Rightarrow> (exn + unit) \<times> world" where
  "os_remove env p w =
     (let w1 = sys_call (OsRemove p) w in
      if files w p \<noteq> None \<and> can_remove env p
      then (Inr (), w1\<lparr>files := (files w)(p := None)\<rparr>)
      else (Inl OSError, w1))"

text \<open>
  The first \<^verbatim>\<open>try\<close> block of \<^verbatim>\<open>acquire_lock\<close>: open for reading, read, strip,
  \<^verbatim>\<open>int\<close>.
\<close>

definition read_pid :: "env \<Rightarrow> path \<Rightarrow> world \<Rightarrow> (exn + int) \<times> world" where
  "read_pid env lock_path w =
     (let w1 = sys_call (OpenRead lock_path) w in
      case files w lock_path of
        None \<Rightarrow> (Inl OSError, w1)
      | Some content \<Rightarrow>
          if can_read env lock_path then
            (case py_int (strip content) of
               None \<Rightarrow> (Inl ValueError, w1)
             | Some n \<Rightarrow> (Inr n, w1))
          else (Inl OSError, w1))"

text \<open>
  The last \<^verbatim>\<open>try\<close> block of \<^verbatim>\<open>acquire_lock\<close>: open for writing (which creates or
  truncates the file), write the PID. A write that fails after the open leaves the
  file empty.
\<close>

definition write_pid :: "env \<Rightarrow> path \<Rightarrow> world \<Rightarrow> bool \<times> world" where
  "write_pid env lock_path w =
     (let w1 = sys_call (OpenWrite lock_path) w in
      case write_outcome env lock_path of
        WriteOk \<Rightarrow> (True, w1\<lparr>files := (files w)(lock_path \<mapsto> str_nat (getpid env))\<rparr>)
      | OpenFails \<Rightarrow> (False, log ''Failed to create lock file: OSError'' w1)
      | WriteFails \<Rightarrow>
          (False, log ''Failed to create lock file: OSError''
                    (w1\<lparr>files := (files w)(lock_path \<mapsto> [])\<rparr>)))"

definition acquire_lock :: "env \<Rightarrow> path \<Rightarrow> world \<Rightarrow> bool \<times> world" where
  "acquire_lock env lock_path w =
     (if files w lock_path \<noteq> None then
        (case read_pid env lock_path w of
           (Inl e, w1) \<Rightarrow>
             (case os_remove env lock_path w1 of
                (Inr u, w2) \<Rightarrow> write_pid env lock_path (log ''Removed corrupted lock file.'' w2)
              | (Inl e', w2) \<Rightarrow> write_pid env lock_path w2)
         | (Inr old_pid, w1) \<Rightarrow>
             if old_pid \<noteq> 0 then
               (case (if os_nt env then windows_process_exists env old_pid w1
                      else posix_pid_alive env old_pid w1) of
                  (True, w2) \<Rightarrow>
                    (False, log (''Another instance appears to be running (PID ''
                                 @ str_int old_pid @ ''). Aborting.'') w2)
                | (False, w2) \<Rightarrow>
                    write_pid env lock_path
                      (snd (os_remove env lock_path
                              (log (''Removing stale lock file for PID '' @ str_int old_pid @ ''.'') w2))))
             else write_pid env lock_path w1)
      else write_pid env lock_path w)"

definition release_lock :: "env \<Rightarrow> path \<Rightarrow> world \<Rightarrow> world" where
  "release_lock env lock_path w =
     (if files w lock_path \<noteq> None then
        (case os_remove env lock_path w of
           (Inr u, w1) \<Rightarrow> w1
         | (Inl e, w1) \<Rightarrow> log (''Warning: failed to remove lock file: '' @ show_exn e) w1)
      else w)"

section \<open>Signal handling\<close>

text \<open>\<^verbatim>\<open>signal_handler(signum, frame)\<close>: one log line, then the flag.\<close>

definition signal_handler :: "int \<Rightarrow> world \<Rightarrow> world" where
  "signal_handler signum w =
     (log (''Received signal '' @ str_int signum @ ''; requesting shutdown.'') w)
       \<lparr>shutdown_requested := True\<rparr>"

definition SIGHUP :: int where "SIGHUP = 1"
definition SIGINT :: int where "SIGINT = 2"
definition SIGTERM :: int where "SIGTERM = 15"

text \<open>
  The calls \<^verbatim>\<open>signal.signal(s, signal_handler)\<close> of one \<^verbatim>\<open>try\<close> block, in order:
  the first that raises ends the block with a warning.
\<close>

fun install_handlers :: "env \<Rightarrow> int list \<Rightarrow> world \<Rightarrow> world" where
  "install_handlers env [] w = w"
| "install_handlers env (s # rest) w =
     (if signal_ok env s then install_handlers env rest (w\<lparr>handlers := handlers w @ [s]\<rparr>)
      else log ''Warning: failed to setup signal handlers: ValueError'' w)"

definition setup_signal_handlers :: "env \<Rightarrow> world \<Rightarrow> world" where
  "setup_signal_handlers env w =
     install_handlers env ([SIGINT, SIGTERM] @ (if has_sighup env then [SIGHUP] else [])) w"

text \<open>
  Reading \<^verbatim>\<open>_shutdown_requested\<close>. The handlers run between two instructions of
  the main thread; the flag is only ever set, so for what a read of the flag sees it
  is enough to run the handlers of the signals that arrived since the previous read
  just before this one.
\<close>

definition shutdown_check :: "env \<Rightarrow> world \<Rightarrow> bool \<times> world" where
  "shutdown_check env w =
     (let w1 = fold signal_handler (signals_before env (checks w)) w
      in (shutdown_requested w1, w1\<lparr>checks := Suc (checks w)\<rparr>))"

section \<open>The request handler\<close>

record response =
  status :: nat
  headers :: "(string \<times> string) list"
  body :: string

text \<open>
  \<^verbatim>\<open>json.dumps\<close> with its default arguments, for a dictionary from strings to
  strings (kept in insertion order): items are separated by a comma and a space, key
  and value by a colon and a space; with \<^verbatim>\<open>ensure_ascii\<close> every character outside
  printable ASCII is escaped.
\<close>

definition quoted :: "string \<Rightarrow> string" where
  "quoted s = CHR 0x22 # s @ [CHR 0x22]"

definition json_escape :: "char \<Rightarrow> string" where
  "json_escape c =
     (if c = CHR 0x22 then [CHR 0x5C, CHR 0x22]
      else if c = CHR 0x5C then [CHR 0x5C, CHR 0x5C]
      else if c = CHR 0x0A then [CHR 0x5C, CHR ''n'']
      else if c = CHR 0x0D then [CHR 0x5C, CHR ''r'']
      else if c = CHR 0x09 then [CHR 0x5C, CHR ''t'']
      else if c = CHR 0x08 then [CHR 0x5C, CHR ''b'']
      else if c = CHR 0x0C then [CHR 0x5C, CHR ''f'']
      else if (of_char c :: nat) < 32 \<or> 126 < (of_char c :: nat) then
        [CHR 0x5C, CHR ''u'', CHR ''0'', CHR ''0'',
         ''0123456789abcdef'' ! (of_char c div 16), ''0123456789abcdef'' ! (of_char c mod 16)]
      else [c])"

definition json_string :: "string \<Rightarrow> string" where
  "json_string s = quoted (concat (map json_escape s))"

fun join :: "string \<Rightarrow> string list \<Rightarrow> string" where
  "join sep [] = []"
| "join sep [x] = x"
| "join sep (x # y # ys) = x @ sep @ join sep (y # ys)"

definition json_dumps :: "(string \<times> string) list \<Rightarrow> string" where
  "json_dumps d =
     ''{'' @ join '', '' (map (\<lambda>(k, v). json_string k @ '': '' @ json_string v) d) @ ''}''"

text \<open>
  \<^verbatim>\<open>ViewerRequestHandler.do_GET\<close>. \<open>static\<close> is the inherited
  \<^verbatim>\<open>SimpleHTTPRequestHandler.do_GET\<close>, serving files below \<open>directory\<close>; the headers
  listed are the ones the handler sends itself. The payload is ASCII, so encoding it
  as UTF-8 changes nothing.
\<close>

definition do_GET :: "(path \<Rightarrow> string \<Rightarrow> response) \<Rightarrow> path \<Rightarrow> string \<Rightarrow> response" where
  "do_GET static directory request_path =
     (if request_path = ''/health'' then
        (let payload = [(''status'', ''ok'')];
             body = json_dumps payload
         in \<lparr>status = 200,
             headers = [(''Content-Type'', ''application/json''),
                        (''Content-Length'', str_nat (length body))],
             body = body\<rparr>)
      else static directory request_path)"

section \<open>Port allocation\<close>

definition DEFAULT_PORT :: int where "DEFAULT_PORT = 8080"
definition PORT_SEARCH_RANGE :: int where "PORT_SEARCH_RANGE = 200"

text \<open>
  One probe of \<^verbatim>\<open>find_free_port\<close>: a fresh socket, \<^verbatim>\<open>bind((HOST, port))\<close>, closed
  at once. A port outside 0..65535 makes \<^verbatim>\<open>bind\<close> raise \<^verbatim>\<open>OverflowError\<close>, a port
  that cannot be bound \<^verbatim>\<open>OSError\<close>.
\<close>

definition probe_bind :: "env \<Rightarrow> int \<Rightarrow> world \<Rightarrow> (exn + unit) \<times> world" where
  "probe_bind env port w =
     (if port < 0 \<or> 65535 < port then Inl OverflowError
      else if bind_free env port then Inr ()
      else Inl OSError,
      sys_call (SocketBind port) w)"

text \<open>The loop over the range: \<^verbatim>\<open>OSError\<close> moves on, anything else propagates.\<close>

fun probe_ports :: "env \<Rightarrow> int list \<Rightarrow> world \<Rightarrow> (exn + int option) \<times> world" where
  "probe_ports env [] w = (Inr None, w)"
| "probe_ports env (port # rest) w =
     (case probe_bind env port w of
        (Inr u, w1) \<Rightarrow> (Inr (Some port), w1)
      | (Inl e, w1) \<Rightarrow> if e = OSError then probe_ports env rest w1 else (Inl e, w1))"

definition find_free_port :: "env \<Rightarrow> int \<Rightarrow> int \<Rightarrow> world \<Rightarrow> (exn + int) \<times> world" where
  "find_free_port env start_port max_attempts w =
     (case probe_ports env [start_port..start_port + max_attempts - 1] w of
        (Inr (Some port), w1) \<Rightarrow> (Inr port, w1)
      | (Inr None, w1) \<Rightarrow>
          (Inl (RuntimeError (''No free port found in range '' @ str_int start_port @ ''-''
                              @ str_int (start_port + max_attempts - 1))), w1)
      | (Inl e, w1) \<Rightarrow> (Inl e, w1))"

text \<open>
  The first block of \<^verbatim>\<open>start_server\<close> (\<^verbatim>\<open>if preferred_port: ... else: ...\<close>). The
  test is Python's truth value: \<^verbatim>\<open>None\<close> and \<^verbatim>\<open>0\<close> both take the \<^verbatim>\<open>else\<close> branch.
\<close>

definition determine_port :: "env \<Rightarrow> int option \<Rightarrow> world \<Rightarrow> (exn + int) \<times> world" where
  "determine_port env preferred_port w =
     (case preferred_port of
        None \<Rightarrow> find_free_port env DEFAULT_PORT PORT_SEARCH_RANGE w
      | Some p \<Rightarrow>
          if p = 0 then find_free_port env DEFAULT_PORT PORT_SEARCH_RANGE w
          else
            (case find_free_port env p 1 w of
               (Inr port, w1) \<Rightarrow> (Inr port, w1)
             | (Inl e, w1) \<Rightarrow>
                 if is_Exception e
                 then (Inl (RuntimeError (''Preferred port '' @ str_int p @ '' unavailable'')), w1)
                 else (Inl e, w1)))"

section \<open>The HTTP server\<close>

definition HOST :: string where "HOST = ''127.0.0.1''"

text \<open>Durations are in milliseconds.\<close>

definition SERVER_START_TIMEOUT :: nat where "SERVER_START_TIMEOUT = 3000"
definition FALLBACK_POLL_TIMEOUT :: nat where "FALLBACK_POLL_TIMEOUT = 300000"
definition PROFILE_CLEANUP_RETRIES :: nat where "PROFILE_CLEANUP_RETRIES = 3"
definition PROFILE_CLEANUP_DELAY :: nat where "PROFILE_CLEANUP_DELAY = 200"
definition CREATE_NEW_CONSOLE :: nat where "CREATE_NEW_CONSOLE = 16"

text \<open>
  The two inherited methods that \<^verbatim>\<open>stop\<close> calls. \<^verbatim>\<open>shutdown\<close> asks the accept loop
  to end and waits until \<^verbatim>\<open>serve_forever\<close> has left it; the event it waits on is set
  only by \<^verbatim>\<open>serve_forever\<close>, so on a server whose loop was never entered the call
  does not return (\<open>None\<close>). It raises nothing. \<^verbatim>\<open>server_close\<close> closes the
  listening socket.
\<close>

definition shutdown :: "server \<Rightarrow> ((exn + unit) \<times> server) option" where
  "shutdown s =
     (case serve_loop s of
        NotServing \<Rightarrow> None
      | Serving \<Rightarrow> Some (Inr (), s\<lparr>serve_loop := Finished\<rparr>)
      | Finished \<Rightarrow> Some (Inr (), s))"

definition server_close :: "env \<Rightarrow> server \<Rightarrow> (exn + unit) \<times> server" where
  "server_close env s =
     (if close_ok env then (Inr (), s\<lparr>socket_open := False\<rparr>) else (Inl OSError, s))"

text \<open>
  \<^verbatim>\<open>StoppableHTTPServer.stop\<close>: \<^verbatim>\<open>server_close\<close> runs in the \<^verbatim>\<open>finally\<close> of
  \<^verbatim>\<open>shutdown\<close>, with every \<^verbatim>\<open>Exception\<close> of its own swallowed; what \<^verbatim>\<open>shutdown\<close>
  raised is raised again afterwards.
\<close>

definition stop :: "env \<Rightarrow> server \<Rightarrow> ((exn + unit) \<times> server) option" where
  "stop env s =
     (case shutdown s of
        None \<Rightarrow> None
      | Some (r, s1) \<Rightarrow>
          (case server_close env s1 of
             (Inr u, s2) \<Rightarrow> Some (r, s2)
           | (Inl e, s2) \<Rightarrow> if is_Exception e then Some (r, s2) else Some (Inl e, s2)))"

lemma clock_fold_signal_handler [simp]:
  "clock (fold signal_handler sigs w) = clock w"
  by (induction sigs arbitrary: w) (simp_all add: signal_handler_def log_def)

lemma clock_shutdown_check:
  "shutdown_check env w = (flag, w1) \<Longrightarrow> clock w1 = clock w"
  by (auto simp add: shutdown_check_def Let_def)

text \<open>
  The \<^verbatim>\<open>else\<close> clause of the wait loop in \<^verbatim>\<open>start_server\<close>, reached when the loop
  condition fails.
\<close>

definition start_timeout :: "env \<Rightarrow> world \<Rightarrow> (exn + unit) \<times> world" where
  "start_timeout env w =
     (case shutdown_check env w of
        (flag, w1) \<Rightarrow>
          if flag then (Inl (KeyboardInterrupt ''Shutdown requested during server startup''), w1)
          else (Inl (RuntimeError ''Server failed to start within timeout''), w1))"

text \<open>
  The wait loop of \<^verbatim>\<open>start_server\<close>: while the deadline has not passed and no
  shutdown is requested, try to connect; a connection leaves the loop, a refusal
  sleeps 50 ms.
\<close>

function await_server :: "env \<Rightarrow> int \<Rightarrow> nat \<Rightarrow> world \<Rightarrow> (exn + unit) \<times> world" where
  "await_server env port deadline w =
     (if clock w < deadline then
        (case shutdown_check env w of
           (flag, w1) \<Rightarrow>
             if flag then start_timeout env w1
             else
               (let w2 = sys_call (Connect port) w1 in
                if connect_ok env (clock w2) then (Inr (), w2)
                else await_server env port deadline (sleep 50 w2)))
      else start_timeout env w)"
  by pat_completeness auto
termination
  by (relation "measure (\<lambda>(env, port, deadline, w). deadline - clock w)")
    (auto simp add: sleep_def sys_call_def dest!: clock_shutdown_check [OF sym])

text \<open>
  \<^verbatim>\<open>start_server\<close>. The constructor binds and listens (and can fail although the
  probe succeeded); the thread runs \<^verbatim>\<open>serve_forever\<close>. The server object lives in
  the world from its construction on; the caller gets the port, and with it the
  handle, only when the function returns normally.
\<close>

definition start_server :: "env \<Rightarrow> path \<Rightarrow> int option \<Rightarrow> world \<Rightarrow> (exn + int) \<times> world" where
  "start_server env serve_dir preferred_port w =
     (case determine_port env preferred_port w of
        (Inl e, w1) \<Rightarrow> (Inl e, w1)
      | (Inr port, w1) \<Rightarrow>
          (let w2 = sys_call (ServerInit port) w1 in
           if listen_ok env port then
             (let w3 = sys_call ThreadStart
                         (w2\<lparr>httpd := Some \<lparr>srv_port = port, srv_dir = serve_dir,
                                              serve_loop = NotServing, socket_open = True\<rparr>\<rparr>)
              in if thread_start_ok env then
                   (case await_server env port (clock w3 + SERVER_START_TIMEOUT)
                           (w3\<lparr>httpd := map_option (\<lambda>s. s\<lparr>serve_loop := Serving\<rparr>) (httpd w3)\<rparr>) of
                      (Inl e, w4) \<Rightarrow> (Inl e, w4)
                    | (Inr u, w4) \<Rightarrow> (Inr port, w4))
                 else (Inl (RuntimeError ''thread start failed''), w3))
           else (Inl OSError, w2)))"

section \<open>Browser launch helpers\<close>

definition win_path :: "string list \<Rightarrow> path" where
  "win_path parts = join [CHR 0x5C] parts"

definition browser_candidates :: "path list" where
  "browser_candidates =
     [win_path [''C:'', ''Program Files'', ''Microsoft'', ''Edge'', ''Application'', ''msedge.exe''],
      win_path [''C:'', ''Program Files (x86)'', ''Microsoft'', ''Edge'', ''Application'',
                ''msedge.exe''],
      win_path [''C:'', ''Program Files'', ''Google'', ''Chrome'', ''Application'', ''chrome.exe''],
      win_path [''C:'', ''Program Files (x86)'', ''Google'', ''Chrome'', ''Application'',
                ''chrome.exe''],
      win_path [''C:'', ''Program Files'', ''BraveSoftware'', ''Brave-Browser'', ''Application'',
                ''brave.exe''],
      win_path [''C:'', ''Program Files'', ''Chromium'', ''Application'', ''chrome.exe''],
      ''/usr/bin/google-chrome'',
      ''/usr/bin/chromium-browser'',
      ''/Applications/Google Chrome.app/Contents/MacOS/Google Chrome'',
      ''/Applications/Microsoft Edge.app/Contents/MacOS/Microsoft Edge'']"

definition find_chrome_like :: "env \<Rightarrow> path option" where
  "find_chrome_like env = find (path_exists env) browser_candidates"

text \<open>
  The loop of \<^verbatim>\<open>cleanup_profile\<close> over the attempts that remain: a directory that is
  gone, or a \<^verbatim>\<open>rmtree\<close> that succeeds, returns; a failure sleeps (except after the
  last attempt) and tries again; the warning is logged when the attempts run out.
\<close>

fun cleanup_attempts :: "env \<Rightarrow> path \<Rightarrow> nat list \<Rightarrow> world \<Rightarrow> world" where
  "cleanup_attempts env profile_dir [] w =
     log (''Warning: could not remove profile directory '' @ profile_dir) w"
| "cleanup_attempts env profile_dir (attempt # rest) w =
     (if profile_dir \<in> dirs w then
        (let w1 = sys_call (Rmtree profile_dir) w in
         if rmtree_ok env profile_dir attempt then w1\<lparr>dirs := dirs w - {profile_dir}\<rparr>
         else cleanup_attempts env profile_dir rest
                (if attempt < PROFILE_CLEANUP_RETRIES - 1 then sleep PROFILE_CLEANUP_DELAY w1
                 else w1))
      else w)"

definition cleanup_profile :: "env \<Rightarrow> path option \<Rightarrow> world \<Rightarrow> world" where
  "cleanup_profile env profile_dir w =
     (case profile_dir of
        None \<Rightarrow> w
      | Some d \<Rightarrow> if d = [] then w else cleanup_attempts env d [0..<PROFILE_CLEANUP_RETRIES] w)"

text \<open>
  \<^verbatim>\<open>tempfile.mkdtemp\<close>: the path, never empty, of a directory that did not exist
  before, or \<^verbatim>\<open>OSError\<close>.
\<close>

definition mkdtemp :: "env \<Rightarrow> world \<Rightarrow> (exn + path) \<times> world" where
  "mkdtemp env w =
     (let w1 = sys_call Mkdtemp w in
      case mkdtemp_result env of
        None \<Rightarrow> (Inl OSError, w1)
      | Some d \<Rightarrow>
          if d = [] \<or> d \<in> dirs w then (Inl OSError, w1)
          else (Inr d, w1\<lparr>dirs := insert d (dirs w)\<rparr>))"

text \<open>
  \<^verbatim>\<open>launch_browser_in_new_terminal\<close> returns the process (its PID here) and the
  profile directory. \<^verbatim>\<open>mkdtemp\<close> is called outside every \<^verbatim>\<open>try\<close>, so its
  exception leaves the function.
\<close>

definition launch_browser_in_new_terminal ::
    "env \<Rightarrow> string \<Rightarrow> bool \<Rightarrow> world \<Rightarrow> (exn + nat option \<times> path option) \<times> world" where
  "launch_browser_in_new_terminal env url use_new_console w =
     (case find_chrome_like env of
        None \<Rightarrow>
          (let w1 = sys_call (WebbrowserOpen url) w in
           if webbrowser_ok env
           then (Inr (None, None), log ''Opened in system default browser (fallback).'' w1)
           else (Inr (None, None), log ''Fallback open failed: Error'' w1))
      | Some exe \<Rightarrow>
          (case mkdtemp env w of
             (Inl e, w1) \<Rightarrow> (Inl e, w1)
           | (Inr profile, w1) \<Rightarrow>
               (let cmd = [exe, ''--app='' @ url, ''--user-data-dir='' @ profile, ''--no-first-run'',
                           ''--no-default-browser-check'', ''--disable-extensions''];
                    w2 = sys_call (Popen cmd (if os_nt env \<and> use_new_console
                                              then CREATE_NEW_CONSOLE else 0)) w1
                in case popen_result env of
                     Some pid \<Rightarrow>
                       (Inr (Some pid, Some profile),
                        log (''Launched browser: '' @ exe @ '' (pid='' @ str_nat pid @ '') profile=''
                             @ profile) w2)
                   | None \<Rightarrow>
                       (Inr (None, None),
                        cleanup_profile env (Some profile)
                          (log ''Failed to launch browser executable: OSError'' w2)))))"

section \<open>Main run logic\<close>

text \<open>
  The loop \<^verbatim>\<open>while proc.poll() is None and not _shutdown_requested\<close>. A browser that
  never exits, with no signal ever, keeps it running for ever: the result is \<open>None\<close>.
\<close>

partial_function (option) poll_browser :: "env \<Rightarrow> world \<Rightarrow> ((exn + unit) \<times> world) option" where
  "poll_browser env w =
     (let w1 = sys_call ProcPoll w in
      case proc_poll env (clock w) of
        PollRaises \<Rightarrow> Some (Inl OSError, w1)
      | Exited \<Rightarrow> Some (Inr (), w1)
      | Running \<Rightarrow>
          (case shutdown_check env w1 of
             (flag, w2) \<Rightarrow>
               if flag then Some (Inr (), w2) else poll_browser env (sleep 100 w2)))"

declare poll_browser.simps [code]

text \<open>\<^verbatim>\<open>terminate\<close>, \<^verbatim>\<open>wait(timeout=5)\<close>, and \<^verbatim>\<open>kill\<close> if either raised.\<close>

definition terminate_browser :: "env \<Rightarrow> world \<Rightarrow> world" where
  "terminate_browser env w =
     (let w1 = sys_call ProcTerminate w in
      if terminate_ok env then
        (let w2 = sys_call ProcWait w1 in
         if wait_ok env then w2 else sys_call ProcKill w2)
      else sys_call ProcKill w1)"

text \<open>The branch \<^verbatim>\<open>if proc:\<close> of the inner \<^verbatim>\<open>try\<close>.\<close>

definition wait_for_browser :: "env \<Rightarrow> world \<Rightarrow> ((exn + unit) \<times> world) option" where
  "wait_for_browser env w =
     (case poll_browser env (log ''Waiting for browser process to exit...'' w) of
        None \<Rightarrow> None
      | Some (Inl e, w1) \<Rightarrow> Some (Inl e, w1)
      | Some (Inr u, w1) \<Rightarrow>
          (case shutdown_check env w1 of
             (flag, w2) \<Rightarrow>
               if flag
               then Some (Inr (), terminate_browser env
                                    (log ''Shutdown requested; terminating browser process...'' w2))
               else Some (Inr (), log ''Browser process exited.'' w2)))"

definition health_url :: "int \<Rightarrow> string" where
  "health_url port = ''http://'' @ HOST @ '':'' @ str_int port @ ''/health''"

text \<open>The \<^verbatim>\<open>else\<close> clause of the fallback loop.\<close>

definition poll_finished :: "env \<Rightarrow> world \<Rightarrow> world" where
  "poll_finished env w =
     (case shutdown_check env w of
        (flag, w1) \<Rightarrow>
          if flag then log ''Shutdown requested during fallback polling.'' w1
          else log ''Fallback poll timed out; continuing to shutdown.'' w1)"

text \<open>
  The fallback loop: while the deadline has not passed and no shutdown is requested,
  fetch \<^verbatim>\<open>/health\<close>; a failure leaves the loop, a success sleeps 500 ms.
\<close>

function poll_health :: "env \<Rightarrow> int \<Rightarrow> nat \<Rightarrow> world \<Rightarrow> world" where
  "poll_health env port deadline w =
     (if clock w < deadline then
        (case shutdown_check env w of
           (flag, w1) \<Rightarrow>
             if flag then poll_finished env w1
             else
               (let w2 = sys_call (Urlopen (health_url port)) w1 in
                if health_ok env (clock w2) then poll_health env port deadline (sleep 500 w2)
                else log ''Detected server unreachable; assuming browser/tab closed.'' w2))
      else poll_finished env w)"
  by pat_completeness auto
termination
  by (relation "measure (\<lambda>(env, port, deadline, w). deadline - clock w)")
    (auto simp add: sleep_def sys_call_def dest!: clock_shutdown_check [OF sym])

text \<open>
  \<^verbatim>\<open>if server: try: server.stop() except Exception as e: log(...)\<close>, on the server
  of this run. What is not an \<^verbatim>\<open>Exception\<close> is not caught.
\<close>

definition stop_server :: "env \<Rightarrow> world \<Rightarrow> ((exn + unit) \<times> world) option" where
  "stop_server env w =
     (case httpd w of
        None \<Rightarrow> Some (Inr (), w)
      | Some s \<Rightarrow>
          (case stop env s of
             None \<Rightarrow> None
           | Some (r, s1) \<Rightarrow>
               (let w1 = (sys_call ServerClose (sys_call ServerShutdown w))\<lparr>httpd := Some s1\<rparr> in
                case r of
                  Inr u \<Rightarrow> Some (Inr (), w1)
                | Inl e \<Rightarrow>
                    if is_Exception e
                    then Some (Inr (), log (''Error stopping server: '' @ show_exn e) w1)
                    else Some (Inl e, w1))))"

text \<open>
  The inner \<^verbatim>\<open>try ... finally\<close> of \<^verbatim>\<open>run_and_block\<close>: wait for the browser or poll
  the health endpoint; then, on every way out, stop the server and clean the profile
  up; an exception of the waiting is raised again afterwards. An exception that
  leaves the \<^verbatim>\<open>finally\<close> block itself would end it there.
\<close>

definition supervise ::
    "env \<Rightarrow> int \<Rightarrow> nat option \<Rightarrow> path option \<Rightarrow> world \<Rightarrow> ((exn + unit) \<times> world) option" where
  "supervise env port proc profile w =
     (case (case proc of
              Some pid \<Rightarrow> wait_for_browser env w
            | None \<Rightarrow>
                Some (Inr (), poll_health env port (clock w + FALLBACK_POLL_TIMEOUT)
                                (log ''Fallback: polling /health until unreachable or timeout.'' w))) of
        None \<Rightarrow> None
      | Some (r, w1) \<Rightarrow>
          (case stop_server env (log ''Stopping HTTP server...'' w1) of
             None \<Rightarrow> None
           | Some (Inl e, w2) \<Rightarrow> Some (Inl e, w2)
           | Some (Inr u, w2) \<Rightarrow> Some (r, cleanup_profile env profile w2)))"

text \<open>How the body of the outer \<^verbatim>\<open>try\<close> ends: an exception, a \<^verbatim>\<open>return\<close>, or its last line.\<close>

datatype outcome = Raised exn | Returned bool | Completed

definition viewer_url :: "int \<Rightarrow> string" where
  "viewer_url port = ''http://'' @ HOST @ '':'' @ str_int port @ ''/timeline_viewer.html''"

definition run_body ::
    "env \<Rightarrow> path \<Rightarrow> int option \<Rightarrow> bool \<Rightarrow> world \<Rightarrow> (outcome \<times> world) option" where
  "run_body env serve_dir preferred_port use_new_console w =
     (case start_server env serve_dir preferred_port
             (log (''Starting HTTP server for directory: '' @ serve_dir) w) of
        (Inl e, w1) \<Rightarrow> Some (Raised e, w1)
      | (Inr port, w1) \<Rightarrow>
          (case shutdown_check env
                  (log (''Server started at '' @ viewer_url port)
                     (log (''VIEWER_URL='' @ viewer_url port) w1)) of
             (flag, w2) \<Rightarrow>
               if flag then Some (Returned False, w2)
               else
                 (case launch_browser_in_new_terminal env (viewer_url port) use_new_console w2 of
                    (Inl e, w3) \<Rightarrow> Some (Raised e, w3)
                  | (Inr (proc, profile), w3) \<Rightarrow>
                      (case supervise env port proc profile w3 of
                         None \<Rightarrow> None
                       | Some (Inl e, w4) \<Rightarrow> Some (Raised e, w4)
                       | Some (Inr u, w4) \<Rightarrow> Some (Completed, w4)))))"

text \<open>
  \<^verbatim>\<open>run_and_block\<close>. \<open>locked\<close> holds the lock path when it is given and not empty.
  Both \<^verbatim>\<open>except\<close> clauses log and return \<open>False\<close>; the \<^verbatim>\<open>finally\<close> releases the
  lock after them; the last line reads the flag once more. \<open>None\<close>: the wait for the
  browser never ends.
\<close>

definition run_and_block ::
    "env \<Rightarrow> path \<Rightarrow> path option \<Rightarrow> int option \<Rightarrow> bool \<Rightarrow> world \<Rightarrow> (bool \<times> world) option" where
  "run_and_block env serve_dir lock_path preferred_port use_new_console w =
     (let locked = (case lock_path of None \<Rightarrow> [] | Some p \<Rightarrow> if p = [] then [] else [p]) in
      case (case locked of [] \<Rightarrow> (True, w) | p # ps \<Rightarrow> acquire_lock env p w) of
        (False, w1) \<Rightarrow> Some (False, w1)
      | (True, w1) \<Rightarrow>
          (case run_body env serve_dir preferred_port use_new_console w1 of
             None \<Rightarrow> None
           | Some (r, w2) \<Rightarrow>
               (let w3 = (case r of
                            Raised e \<Rightarrow>
                              if is_Exception e
                              then log (''Error during execution: '' @ show_exn e) w2
                              else log ''Interrupted by user.'' w2
                          | Returned b \<Rightarrow> w2
                          | Completed \<Rightarrow> w2);
                    w4 = (case locked of [] \<Rightarrow> w3 | p # ps \<Rightarrow> release_lock env p w3)
                in case r of
                     Raised e \<Rightarrow> Some (False, w4)
                   | Returned b \<Rightarrow> Some (b, w4)
                   | Completed \<Rightarrow>
                       (case shutdown_check env w4 of (flag, w5) \<Rightarrow> Some (\<not> flag, w5)))))"

section \<open>What a step leaves alone\<close>

text \<open>
  Two worlds with the same files, the same directories and the same server: what
  logging, sleeping, probing and polling leave untouched.
\<close>

definition same_resources :: "world \<Rightarrow> world \<Rightarrow> bool" where
  "same_resources w w' = (files w' = files w \<and> dirs w' = dirs w \<and> httpd w' = httpd w)"


section \<open>Example runs\<close>

text \<open>
  A POSIX machine on which everything works. PID 777 is another live process; signal 0
  to PID 0 goes to the caller's own process group, so it succeeds too.
\<close>

definition env_posix :: env where
  "env_posix =
     \<lparr>os_nt = False, getpid = 4242,
      can_read = (\<lambda>p. True), can_remove = (\<lambda>p. True), write_outcome = (\<lambda>p. WriteOk),
      kill0_ok = (\<lambda>pid. pid = 0 \<or> pid = 777), open_process_ok = (\<lambda>pid. False),
      has_sighup = True, signal_ok = (\<lambda>s. True), signals_before = (\<lambda>k. []),
      bind_free = (\<lambda>port. True), listen_ok = (\<lambda>port. True), thread_start_ok = True,
      connect_ok = (\<lambda>t. True), close_ok = True,
      path_exists = (\<lambda>p. False), webbrowser_ok = True,
      mkdtemp_result = Some ''/tmp/viewer-profile-x1'', popen_result = Some 5000,
      rmtree_ok = (\<lambda>p a. True), proc_poll = (\<lambda>t. Exited),
      terminate_ok = True, wait_ok = True, kill_ok = True,
      health_ok = (\<lambda>t. False)\<rparr>"

text \<open>The same machine with the lock's directory read-only.\<close>

definition env_readonly :: env where
  "env_readonly = env_posix\<lparr>write_outcome := (\<lambda>p. OpenFails)\<rparr>"

text \<open>The same machine with port 9000 bound by another process.\<close>

definition env_port_busy :: env where
  "env_port_busy = env_posix\<lparr>bind_free := (\<lambda>port. port \<noteq> 9000)\<rparr>"

text \<open>The stock handler's answer does not matter here: every file is missing.\<close>

definition static_not_found :: "path \<Rightarrow> string \<Rightarrow> response" where
  "static_not_found directory request_path = \<lparr>status = 404, headers = [], body = []\<rparr>"

text \<open>A machine with Chrome installed.\<close>

definition env_chrome :: env where
  "env_chrome = env_posix\<lparr>path_exists := (\<lambda>p. p = ''/usr/bin/google-chrome'')\<rparr>"

text \<open>Chrome is installed but cannot be executed.\<close>

definition env_spawn_fails :: env where
  "env_spawn_fails = env_chrome\<lparr>popen_result := None\<rparr>"

text \<open>No connection to the new server is ever accepted.\<close>

definition env_never_connects :: env where
  "env_never_connects = env_posix\<lparr>connect_ok := (\<lambda>t. False)\<rparr>"

text \<open>No thread can be started.\<close>

definition env_no_threads :: env where
  "env_no_threads = env_posix\<lparr>thread_start_ok := False\<rparr>"

text \<open>SIGTERM arrives before the flag is read for the first time.\<close>

definition env_interrupted :: env where
  "env_interrupted = env_posix\<lparr>signals_before := (\<lambda>k. if k = 0 then [15] else [])\<rparr>"

text \<open>
  The health endpoint stays reachable and SIGTERM arrives between the first and the
  second poll.
\<close>

definition env_signal_while_polling :: env where
  "env_signal_while_polling =
     env_posix\<lparr>health_ok := (\<lambda>t. True), signals_before := (\<lambda>k. if k = 3 then [15] else [])\<rparr>"

definition serve0 :: path where
  "serve0 = ''/opt/app/viewer''"

definition world0 :: world where
  "world0 =
     \<lparr>files = (\<lambda>p. None), dirs = {}, shutdown_requested = False, handlers = [],
      checks = 0, clock = 0, httpd = None, stdout = [], trace = []\<rparr>"

definition lock0 :: path where
  "lock0 = ''/opt/app/viewer.lock''"

text \<open>The same world with a marker holding the given text.\<close>

definition with_marker :: "string \<Rightarrow> world" where
  "with_marker content = world0\<lparr>files := (files world0)(lock0 \<mapsto> content)\<rparr>"

section \<open>Properties of the lock\<close>

lemmas lock_defs = acquire_lock_def read_pid_def write_pid_def os_remove_def
  windows_process_exists_def posix_pid_alive_def reported_live_def sys_call_def log_def

lemmas example_defs = env_posix_def env_readonly_def env_port_busy_def env_chrome_def
  env_spawn_fails_def env_never_connects_def env_no_threads_def env_interrupted_def
  env_signal_while_polling_def world0_def lock0_def serve0_def with_marker_def











section \<open>Properties of the health endpoint\<close>

lemma health_body:
  "json_dumps [(''status'', ''ok'')] = ''{'' @ quoted ''status'' @ '': '' @ quoted ''ok'' @ ''}''"
  by (simp add: json_dumps_def json_string_def json_escape_def quoted_def)

text \<open>
  Claim C3, as amended. Whatever the content root and whatever the stock handler
  would answer, a GET of \<^verbatim>\<open>/health\<close> is answered with status 200, the header
  \<^verbatim>\<open>Content-Type: application/json\<close> and the sixteen bytes that \<^verbatim>\<open>json.dumps\<close>
  produces, which have a space after the colon.
\<close>

theorem do_GET_health:
  "do_GET static directory ''/health'' =
     \<lparr>status = 200,
      headers = [(''Content-Type'', ''application/json''), (''Content-Length'', ''16'')],
      body = ''{'' @ quoted ''status'' @ '': '' @ quoted ''ok'' @ ''}''\<rparr>"
  by (simp add: do_GET_def health_body) (simp add: quoted_def)

text \<open>
  Claim C3 as stated fails: the body is not the fifteen bytes of the compact form,
  without the space.
\<close>

theorem do_GET_health_compact_counterexample:
  "status (do_GET static_not_found ''/srv/viewer'' ''/health'') = 200
   \<and> length (body (do_GET static_not_found ''/srv/viewer'' ''/health'')) = 16
   \<and> body (do_GET static_not_found ''/srv/viewer'' ''/health'')
       \<noteq> ''{'' @ quoted ''status'' @ '':'' @ quoted ''ok'' @ ''}''"
  by (simp add: do_GET_def health_body) (simp add: quoted_def)

section \<open>Properties of port allocation\<close>





section \<open>Properties of the signal handler\<close>

text \<open>Any number of deliveries, in closed form: one line each, and the flag is never reset.\<close>

lemma fold_signal_handler:
  "fold signal_handler sigs w =
     w\<lparr>stdout := stdout w @ map (\<lambda>s. ''Received signal '' @ str_int s @ ''; requesting shutdown.'') sigs,
       shutdown_requested := (shutdown_requested w \<or> sigs \<noteq> [])\<rparr>"
  by (induction sigs arbitrary: w) (simp_all add: signal_handler_def log_def)



section \<open>Frame properties of the steps of a run\<close>

lemma str_nat_4242: "str_nat 4242 = ''4242''"
  by simp

declare str_nat.simps [simp del]

lemma same_resources_refl [simp]: "same_resources w w"
  by (simp add: same_resources_def)

lemma same_resources_trans:
  "same_resources w w1 \<Longrightarrow> same_resources w1 w2 \<Longrightarrow> same_resources w w2"
  by (simp add: same_resources_def)

lemma same_resources_log [simp]: "same_resources w (log m w') = same_resources w w'"
  by (simp add: same_resources_def log_def)

lemma same_resources_sys_call [simp]: "same_resources w (sys_call e w') = same_resources w w'"
  by (simp add: same_resources_def sys_call_def)

lemma same_resources_sleep [simp]: "same_resources w (sleep ms w') = same_resources w w'"
  by (simp add: same_resources_def sleep_def sys_call_def)

lemma same_resources_left [simp]:
  "same_resources (log m w) w' = same_resources w w'"
  "same_resources (sys_call e w) w' = same_resources w w'"
  "same_resources (sleep ms w) w' = same_resources w w'"
  by (simp_all add: same_resources_def log_def sys_call_def sleep_def)

lemma shutdown_check_frame:
  assumes "shutdown_check env w = (flag, w1)"
  shows "same_resources w w1" and "trace w1 = trace w"
  using assms by (auto simp add: shutdown_check_def fold_signal_handler same_resources_def)

lemma start_timeout_frame:
  "same_resources w (snd (start_timeout env w))" "trace (snd (start_timeout env w)) = trace w"
  by (auto simp add: start_timeout_def split: prod.splits dest: shutdown_check_frame)

declare await_server.simps [simp del] poll_health.simps [simp del]

lemma await_server_frame: "same_resources w (snd (await_server env port deadline w))"
proof (induction env port deadline w rule: await_server.induct)
  case (1 env port deadline w)
  show ?case
  proof (cases "clock w < deadline")
    case False
    then show ?thesis
      by (subst await_server.simps) (simp add: start_timeout_frame)
  next
    case True
    obtain flag w1 where sc: "shutdown_check env w = (flag, w1)"
      by (cases "shutdown_check env w")
    note fr = shutdown_check_frame(1) [OF sc]
    show ?thesis
    proof (cases "flag \<or> connect_ok env (clock (sys_call (Connect port) w1))")
      case True
      with \<open>clock w < deadline\<close> sc fr show ?thesis
        by (subst await_server.simps)
          (auto simp add: Let_def intro: same_resources_trans [OF fr] start_timeout_frame)
    next
      case False
      from fr have "same_resources w (sleep 50 (sys_call (Connect port) w1))"
        by simp
      from same_resources_trans [OF this] 1 [OF \<open>clock w < deadline\<close> sc [symmetric]] False
      have "same_resources w
              (snd (await_server env port deadline (sleep 50 (sys_call (Connect port) w1))))"
        by simp
      with False \<open>clock w < deadline\<close> sc show ?thesis
        by (subst await_server.simps) (simp add: Let_def)
    qed
  qed
qed


lemma await_server_frame':
  "await_server env port deadline w = (r, w') \<Longrightarrow> same_resources w w'"
  using await_server_frame [of w env port deadline] by simp













lemma mkdtemp_result:
  assumes "mkdtemp env w = (Inr d, w')"
  shows "mkdtemp_result env = Some d" and "d \<noteq> []" and "dirs w' = insert d (dirs w)"
    and "files w' = files w"
  using assms by (auto simp add: mkdtemp_def Let_def sys_call_def split: option.splits if_splits)


























lemma release_lock_held:
  assumes "files w p = Some content"
  shows "trace (release_lock env p w) = trace w @ [OsRemove p]"
    and "dirs (release_lock env p w) = dirs w"
    and "httpd (release_lock env p w) = httpd w"
    and "can_remove env p \<Longrightarrow> files (release_lock env p w) p = None"
  using assms
  by (simp_all add: release_lock_def os_remove_def Let_def sys_call_def log_def)





section \<open>Properties of a failed start and a failed launch\<close>

lemma shutdown_check_quiet:
  "signals_before env (checks w) = [] \<Longrightarrow>
     shutdown_check env w = (shutdown_requested w, w\<lparr>checks := Suc (checks w)\<rparr>)"
  by (simp add: shutdown_check_def)

lemma await_server_refused:
  "\<forall>t. \<not> connect_ok env t \<Longrightarrow> \<forall>k. signals_before env k = [] \<Longrightarrow> \<not> shutdown_requested w \<Longrightarrow>
    fst (await_server env port deadline w)
      = Inl (RuntimeError ''Server failed to start within timeout'')"
proof (induction env port deadline w rule: await_server.induct)
  case (1 env port deadline w)
  from "1.prems"(2) have quiet:
    "shutdown_check env v = (shutdown_requested v, v\<lparr>checks := Suc (checks v)\<rparr>)" for v
    by (simp add: shutdown_check_quiet)
  show ?case
  proof (cases "clock w < deadline")
    case False
    with "1.prems" show ?thesis
      by (subst await_server.simps) (simp add: start_timeout_def quiet)
  next
    case True
    have "fst (await_server env port deadline
                 (sleep 50 (sys_call (Connect port) (w\<lparr>checks := Suc (checks w)\<rparr>))))
            = Inl (RuntimeError ''Server failed to start within timeout'')"
      using "1.prems" True
      by (intro "1.IH" [of "shutdown_requested w" "w\<lparr>checks := Suc (checks w)\<rparr>"])
        (simp_all add: quiet sys_call_def sleep_def)
    with True "1.prems" show ?thesis
      by (subst await_server.simps) (simp add: quiet Let_def)
  qed
qed

lemma start_server_times_out:
  assumes "determine_port env preferred w = (Inr port, w1)"
    and "listen_ok env port" and "thread_start_ok env"
    and "\<forall>t. \<not> connect_ok env t" and "\<forall>k. signals_before env k = []"
    and "\<not> shutdown_requested w1"
  shows "\<exists>w'. start_server env serve_dir preferred w
             = (Inl (RuntimeError ''Server failed to start within timeout''), w')
          \<and> files w' = files w1 \<and> dirs w' = dirs w1
          \<and> httpd w' = Some \<lparr>srv_port = port, srv_dir = serve_dir, serve_loop = Serving,
                               socket_open = True\<rparr>"
proof -
  let ?s = "\<lparr>srv_port = port, srv_dir = serve_dir, serve_loop = Serving, socket_open = True\<rparr>"
  let ?w3 = "sys_call ThreadStart
      ((sys_call (ServerInit port) w1)
         \<lparr>httpd := Some \<lparr>srv_port = port, srv_dir = serve_dir, serve_loop = NotServing,
                           socket_open = True\<rparr>\<rparr>)"
  let ?w4 = "?w3\<lparr>httpd := map_option (\<lambda>s. s\<lparr>serve_loop := Serving\<rparr>) (httpd ?w3)\<rparr>"
  obtain r w' where aw: "await_server env port (clock ?w3 + SERVER_START_TIMEOUT) ?w4 = (r, w')"
    by (cases "await_server env port (clock ?w3 + SERVER_START_TIMEOUT) ?w4")
  from assms(6) have "\<not> shutdown_requested ?w4"
    by (simp add: sys_call_def)
  from await_server_refused [OF assms(4,5) this, of port "clock ?w3 + SERVER_START_TIMEOUT"] aw
  have r: "r = Inl (RuntimeError ''Server failed to start within timeout'')"
    by simp
  from await_server_frame' [OF aw]
  have "files w' = files w1 \<and> dirs w' = dirs w1 \<and> httpd w' = Some ?s"
    by (simp add: same_resources_def sys_call_def)
  moreover from assms(1-3) aw r
  have "start_server env serve_dir preferred w
          = (Inl (RuntimeError ''Server failed to start within timeout''), w')"
    by (simp add: start_server_def Let_def)
  ultimately show ?thesis by blast
qed

lemma run_and_block_start_failed:
  assumes "acquire_lock env p w = (True, w1)" and "p \<noteq> []"
    and "start_server env serve_dir preferred
           (log (''Starting HTTP server for directory: '' @ serve_dir) w1) = (Inl e, w2)"
  shows "run_and_block env serve_dir (Some p) preferred c w =
           Some (False, release_lock env p
                          (if is_Exception e then log (''Error during execution: '' @ show_exn e) w2
                           else log ''Interrupted by user.'' w2))"
  using assms by (simp add: run_and_block_def run_body_def)

lemma determine_port_default_free:
  "bind_free env DEFAULT_PORT \<Longrightarrow>
     determine_port env None w = (Inr DEFAULT_PORT, sys_call (SocketBind DEFAULT_PORT) w)"
  by (simp add: determine_port_def find_free_port_def DEFAULT_PORT_def PORT_SEARCH_RANGE_def
      upto.simps probe_bind_def)

text \<open>
  Claim C2 does not hold of the code. On a machine where no connection to the new
  server is ever accepted, the start times out after 3 s, the run returns \<open>False\<close>
  and the lock marker is removed, but the server that \<open>start_server\<close> created is
  never stopped: when \<open>run_and_block\<close> returns its accept loop is still running and
  its socket is still open. The exception leaves \<open>start_server\<close> before the handle
  reaches the caller, and the \<^verbatim>\<open>finally\<close> that stops the server covers only the
  code after the launch.
\<close>

theorem start_timeout_leaves_server_running:
  "map_option (\<lambda>(ok, w). (ok, files w lock0, httpd w))
     (run_and_block env_never_connects serve0 (Some lock0) None True world0)
   = Some (False, None,
           Some \<lparr>srv_port = 8080, srv_dir = serve0, serve_loop = Serving, socket_open = True\<rparr>)"
proof -
  let ?env = env_never_connects
  let ?w1 = "snd (acquire_lock ?env lock0 world0)"
  let ?w1' = "log (''Starting HTTP server for directory: '' @ serve0) ?w1"
  have acq: "acquire_lock ?env lock0 world0 = (True, ?w1)"
    by (simp add: example_defs lock_defs)
  have w1: "files ?w1 lock0 = Some ''4242''" "\<not> shutdown_requested ?w1"
    by (simp_all add: example_defs lock_defs str_nat_4242)
  have env: "bind_free ?env DEFAULT_PORT" "listen_ok ?env DEFAULT_PORT" "thread_start_ok ?env"
    "\<forall>t. \<not> connect_ok ?env t" "\<forall>k. signals_before ?env k = []" "can_remove ?env lock0"
    by (simp_all add: example_defs)
  from w1(2) have "\<not> shutdown_requested (sys_call (SocketBind DEFAULT_PORT) ?w1')"
    by (simp add: sys_call_def log_def)
  from start_server_times_out
    [OF determine_port_default_free [OF env(1)] env(2,3,4,5) this, of serve0]
  obtain w2 where st: "start_server ?env serve0 None ?w1'
        = (Inl (RuntimeError ''Server failed to start within timeout''), w2)"
    and w2: "files w2 = files ?w1" "httpd w2
        = Some \<lparr>srv_port = DEFAULT_PORT, srv_dir = serve0, serve_loop = Serving, socket_open = True\<rparr>"
    by (auto simp add: sys_call_def log_def)
  let ?w3 = "log (''Error during execution: ''
                  @ show_exn (RuntimeError ''Server failed to start within timeout'')) w2"
  from run_and_block_start_failed [OF acq _ st, of True]
  have run: "run_and_block ?env serve0 (Some lock0) None True world0
      = Some (False, release_lock ?env lock0 ?w3)"
    by (simp add: lock0_def)
  from w1(1) w2(1) have held: "files ?w3 lock0 = Some ''4242''"
    by (simp add: log_def)
  from release_lock_held(3,4) [OF held, of ?env] env(6) w2(2) run show ?thesis
    by (simp add: log_def DEFAULT_PORT_def)
qed


text \<open>
  Claim C7 does not hold of the code. With Chrome installed but not executable, the
  launch removes the profile directory it made and reports no process and no profile,
  and the run goes on to poll the health endpoint and ends normally; but the default
  browser is never opened: the list of system calls has no \<open>WebbrowserOpen\<close>.
\<close>

theorem spawn_failure_polls_without_default_open:
  "fst (launch_browser_in_new_terminal env_spawn_fails (viewer_url 8080) True world0)
     = Inr (None, None)
   \<and> map_option (\<lambda>(ok, w). (ok, trace w, dirs w))
       (run_and_block env_spawn_fails serve0 (Some lock0) None True world0)
     = Some (True,
             [OpenWrite ''/opt/app/viewer.lock'', SocketBind 8080, ServerInit 8080, ThreadStart,
              Connect 8080, Mkdtemp,
              Popen [''/usr/bin/google-chrome'',
                     ''--app=http://127.0.0.1:8080/timeline_viewer.html'',
                     ''--user-data-dir=/tmp/viewer-profile-x1'', ''--no-first-run'',
                     ''--no-default-browser-check'', ''--disable-extensions''] 0,
              Rmtree ''/tmp/viewer-profile-x1'', Urlopen ''http://127.0.0.1:8080/health'',
              ServerShutdown, ServerClose, OsRemove ''/opt/app/viewer.lock''],
             {})"
  by (simp add: run_and_block_def run_body_def start_server_def determine_port_def
      find_free_port_def DEFAULT_PORT_def PORT_SEARCH_RANGE_def upto.simps probe_bind_def
      await_server.simps SERVER_START_TIMEOUT_def shutdown_check_def
      launch_browser_in_new_terminal_def find_chrome_like_def browser_candidates_def win_path_def
      mkdtemp_def cleanup_profile_def PROFILE_CLEANUP_RETRIES_def upt_rec
      supervise_def poll_health.simps FALLBACK_POLL_TIMEOUT_def health_url_def viewer_url_def
      HOST_def str_int_def str_nat.simps stop_server_def stop_def shutdown_def server_close_def
      release_lock_def lock_defs example_defs Let_def)




section \<open>The scan and two scenarios\<close>

lemma probe_ports_first_free:
  "\<forall>p \<in> set ports. 0 \<le> p \<and> p \<le> 65535 \<Longrightarrow>
     fst (probe_ports env ports w) = Inr (find (bind_free env) ports)"
  by (induction ports arbitrary: w) (simp_all add: probe_bind_def)

text \<open>
  Without a preferred port the scan returns the lowest port of the range whose probe
  succeeds, and raises the no-free-port error exactly when no probe does (for a range
  of valid port numbers, as the default range is).
\<close>

theorem find_free_port_lowest:
  assumes "0 \<le> start_port" and "start_port + max_attempts - 1 \<le> 65535"
  shows "fst (find_free_port env start_port max_attempts w) =
           (case find (bind_free env) [start_port..start_port + max_attempts - 1] of
              Some port \<Rightarrow> Inr port
            | None \<Rightarrow>
                Inl (RuntimeError (''No free port found in range '' @ str_int start_port @ ''-''
                                   @ str_int (start_port + max_attempts - 1))))"
proof -
  from assms have "\<forall>p \<in> set [start_port..start_port + max_attempts - 1]. 0 \<le> p \<and> p \<le> 65535"
    by auto
  from probe_ports_first_free [OF this, of env w] show ?thesis
    by (cases "probe_ports env [start_port..start_port + max_attempts - 1] w")
      (auto simp add: find_free_port_def split: option.splits)
qed

theorem find_free_port_lowest_witness:
  "(0::int) \<le> 8080 \<and> (8080::int) + 200 - 1 \<le> 65535
   \<and> fst (find_free_port (env_posix\<lparr>bind_free := (\<lambda>port. 8082 < port)\<rparr>) 8080 200 world0) = Inr 8083"
  using find_free_port_lowest [of 8080 200 "env_posix\<lparr>bind_free := (\<lambda>port. 8082 < port)\<rparr>" world0]
  by (simp add: upto.simps)

text \<open>
  Scenario A of the specification: no browser binary is installed, the default browser
  opens, and the first health poll fails. The start-up line is printed once, before
  the launch; the run polls once, stops the server, removes the marker and returns
  \<open>True\<close>.
\<close>

theorem scenario_no_browser:
  "map_option (\<lambda>(ok, w). (ok, stdout w, trace w, files w lock0))
     (run_and_block env_posix serve0 (Some lock0) None True world0)
   = Some (True,
           [''Starting HTTP server for directory: /opt/app/viewer'',
            ''VIEWER_URL=http://127.0.0.1:8080/timeline_viewer.html'',
            ''Server started at http://127.0.0.1:8080/timeline_viewer.html'',
            ''Opened in system default browser (fallback).'',
            ''Fallback: polling /health until unreachable or timeout.'',
            ''Detected server unreachable; assuming browser/tab closed.'',
            ''Stopping HTTP server...''],
           [OpenWrite ''/opt/app/viewer.lock'', SocketBind 8080, ServerInit 8080, ThreadStart,
            Connect 8080, WebbrowserOpen ''http://127.0.0.1:8080/timeline_viewer.html'',
            Urlopen ''http://127.0.0.1:8080/health'', ServerShutdown, ServerClose,
            OsRemove ''/opt/app/viewer.lock''],
           None)"
  by (simp add: run_and_block_def run_body_def start_server_def determine_port_def
      find_free_port_def DEFAULT_PORT_def PORT_SEARCH_RANGE_def upto.simps probe_bind_def
      await_server.simps SERVER_START_TIMEOUT_def shutdown_check_def
      launch_browser_in_new_terminal_def find_chrome_like_def browser_candidates_def win_path_def
      supervise_def poll_health.simps FALLBACK_POLL_TIMEOUT_def health_url_def viewer_url_def
      HOST_def str_int_def str_nat.simps stop_server_def stop_def shutdown_def server_close_def
      cleanup_profile_def release_lock_def lock_defs example_defs Let_def)

text \<open>
  Scenario C of the specification: SIGTERM arrives during the fallback polling. The
  loop ends at its next test of the flag, the server is stopped, the marker is removed
  and the run returns \<open>False\<close>.
\<close>

theorem scenario_signal_while_polling:
  "map_option (\<lambda>(ok, w). (ok, stdout w, trace w, files w lock0, httpd w))
     (run_and_block env_signal_while_polling serve0 (Some lock0) None True world0)
   = Some (False,
           [''Starting HTTP server for directory: /opt/app/viewer'',
            ''VIEWER_URL=http://127.0.0.1:8080/timeline_viewer.html'',
            ''Server started at http://127.0.0.1:8080/timeline_viewer.html'',
            ''Opened in system default browser (fallback).'',
            ''Fallback: polling /health until unreachable or timeout.'',
            ''Received signal 15; requesting shutdown.'',
            ''Shutdown requested during fallback polling.'',
            ''Stopping HTTP server...''],
           [OpenWrite ''/opt/app/viewer.lock'', SocketBind 8080, ServerInit 8080, ThreadStart,
            Connect 8080, WebbrowserOpen ''http://127.0.0.1:8080/timeline_viewer.html'',
            Urlopen ''http://127.0.0.1:8080/health'', Sleep 500, ServerShutdown, ServerClose,
            OsRemove ''/opt/app/viewer.lock''],
           None,
           Some \<lparr>srv_port = 8080, srv_dir = ''/opt/app/viewer'', serve_loop = Finished,
                  socket_open = False\<rparr>)"
  by (simp add: run_and_block_def run_body_def start_server_def determine_port_def
      find_free_port_def DEFAULT_PORT_def PORT_SEARCH_RANGE_def upto.simps probe_bind_def
      await_server.simps SERVER_START_TIMEOUT_def shutdown_check_def signal_handler_def
      launch_browser_in_new_terminal_def find_chrome_like_def browser_candidates_def win_path_def
      supervise_def poll_health.simps poll_finished_def FALLBACK_POLL_TIMEOUT_def health_url_def
      viewer_url_def sleep_def
      HOST_def str_int_def str_nat.simps stop_server_def stop_def shutdown_def server_close_def
      cleanup_profile_def release_lock_def lock_defs example_defs
      Let_def)

end
